theory Spec2Isabelle
  imports Main
begin

section \<open>The seed writer: data model\<close>

text \<open>
  A shallow embedding of package \<open>seedwriter\<close> (the \<open>Writer\<close> that resolves and
  validates the snaps of an image seed). Go pointers are addresses into two stores kept
  in the writer state: \<open>optStore\<close> holds the \<open>OptionsSnap\<close> objects, \<open>seedStore\<close>
  the \<open>SeedSnap\<close> objects. A method is a function from the state to a result and the
  state after the call; a result is a value, an error, or a panic of the Go runtime.
\<close>

subsection \<open>Errors, panics, results\<close>

text \<open>One constructor per \<open>fmt.Errorf\<close> of the source, with the arguments of the message.\<close>

datatype error =
    ErrExpectedStep string string
  | ErrBothNameAndPath string
  | ErrParallelInstance string
  | ErrRepeatedInOptions string
  | ErrNotDotSnap string
  | ErrLocalNotExist string
  | ErrOptionChannel string error
  | ErrDbNil
  | ErrNewFetcherNil
  | ErrModelPrereqs error
  | ErrInfoNotSetDerived string
  | ErrLocalRepeated string
  | ErrDifferentChannels string string string string
  | ErrExtraNoName
  | ErrPinnedTrackMismatch string string string
  | ErrCannotResolvePinned string string string
  | ErrCannotResolve string string string
  | ErrInfoNotSetDownloaded string
  | ErrSnapIDNotSet string
  | ErrARefsNotSet string
  | ErrClassicSnap string
  | ErrMissingDefaultProvider string string
  | ErrPublisher string string string string
  | ErrLostAssertion
  | ErrNoSnapDecl string
  | ErrPathNotSet string string
  | ErrFileShouldExist string
  | External string

datatype panic =
    UnknownWriterStep int
  | NilDereference
  | SliceBoundsOutOfRange

datatype 'a res = Ok 'a | Err error | Panic panic

subsection \<open>Records of the source\<close>

record Options =
  SeedDir :: string
  DefaultChannel :: string
  TestSkipCopyUnverifiedModel :: bool

record OptionsSnap =
  Name :: string
  SnapID :: string
  Path :: string
  Channel :: string

text \<open>\<open>asserts.ModelSnap\<close> and \<open>asserts.Model\<close>: the fields the writer reads.\<close>

record ModelSnap =
  msName :: string
  msSnapID :: string
  PinnedTrack :: string
  msDefaultChannel :: string

record Model =
  AllSnaps :: "ModelSnap list"
  BrandID :: string
  Classic :: bool
  Store :: string

datatype snapType = TypeApp | TypeGadget | TypeKernel | TypeBase | TypeOS | TypeSnapd

text \<open>\<open>snap.Info\<close>: the fields and the results of the methods the writer reads.\<close>

record Info =
  infoSnapName :: string
  infoID :: string
  Revision :: int
  GetType :: snapType
  NeedsClassic :: bool
  MountFile :: string
  NeededDefaultProviders :: "string list"

record Ref =
  refType :: string
  refPrimaryKey :: "string list"

record SnapDeclaration =
  PublisherID :: string

text \<open>
  The value of the embedded interface \<open>naming.SnapRef\<close> of a \<open>SeedSnap\<close>: nil, the
  \<open>*snap.Info\<close>, the \<open>*asserts.ModelSnap\<close> or the \<open>*OptionsSnap\<close> (an address).
\<close>

datatype snapRef = NilRef | InfoRef Info | ModelRef ModelSnap | OptRef nat

record SeedSnap =
  SnapRef :: snapRef
  sChannel :: string
  sPath :: string
  sInfo :: "Info option"
  ARefs :: "Ref list option"
  local :: bool
  modelSnap :: "ModelSnap option"
  optionSnap :: "nat option"

text \<open>
  Modelled from the spec: \<open>naming.SnapSet\<close> (package \<open>naming\<close> is not among the
  sources). The spec describes it as ``a name-uniqueness index over package references;
  used throughout to detect duplicates and to test set membership'': references are
  indexed by the name they have when added, a name is added once, and lookup is by name.
  A stored reference is the address of an \<open>OptionsSnap\<close> or of a \<open>SeedSnap\<close>.
\<close>

datatype setRef = OptPtr nat | SeedPtr nat

type_synonym SnapSet = "(string \<times> setRef) list"

definition Lookup :: "SnapSet \<Rightarrow> string \<Rightarrow> setRef option" where
  "Lookup s name = map_of s name"

definition Contains :: "SnapSet \<Rightarrow> string \<Rightarrow> bool" where
  "Contains s name = (Lookup s name \<noteq> None)"

definition Add :: "SnapSet \<Rightarrow> string \<Rightarrow> setRef \<Rightarrow> SnapSet" where
  "Add s name r = (if Contains s name then s else s @ [(name, r)])"

datatype snapsToDownloadSet =
  toDownloadModel | toDownloadImplicit | toDownloadExtra | toDownloadExtraImplicit

text \<open>
  The writer. \<open>pol\<close> is the state of the policy object (an interface in the source, whose
  methods may keep state); \<open>db\<close> is the assertion database given to \<open>Start\<close>, as its
  lookup of snap declarations; \<open>localSnaps\<close> is the Go map from option address to seed
  address, kept as an association list.
\<close>

record 'p Writer =
  model :: Model
  opts :: Options
  pol :: 'p
  warnings :: "error list"
  db :: "(Ref \<Rightarrow> SnapDeclaration option) option"
  expectedStep :: int
  modelRefs :: "Ref list"
  optionsSnaps :: "nat list"
  consumedOptSnapNum :: int
  extraSnapsGuessNum :: int
  byNameOptSnaps :: SnapSet
  localSnaps :: "(nat \<times> nat) list"
  byRefLocalSnaps :: SnapSet
  availableSnaps :: "SnapSet option"
  toDownload :: snapsToDownloadSet
  toDownloadConsideredNum :: int
  snapsFromModel :: "nat list"
  extraSnaps :: "nat list"
  optStore :: "nat \<Rightarrow> OptionsSnap"
  nextOpt :: nat
  seedStore :: "nat \<Rightarrow> SeedSnap"
  nextSeed :: nat

subsection \<open>Channels\<close>

text \<open>
  Modelled from the spec: package \<open>channel\<close> (\<open>ParseVerbatim\<close> and \<open>Resolve\<close>; the
  package is not among the sources). The spec says of channels that ``a track is a major
  line, risk is a stability level within it'', that ``malformed channel strings fail
  immediately at option-registration time'', and of resolution that ``an override channel
  generally replaces or narrows risk/branch relative to the default track'', with
  ``resolving (model-default, no-option) yields exactly the model default channel;
  resolving (model-default, option-override-same-track) yields the override's risk on the
  model's track''. A channel is written \<open>[track/]risk[/branch]\<close> or \<open>track\<close>; the
  architecture of a channel plays no part in the writer and is left out.
\<close>

record Channel =
  Track :: string
  Risk :: string
  Branch :: string

definition channelRisks :: "string list" where
  "channelRisks = [''stable'', ''candidate'', ''beta'', ''edge'']"

text \<open>\<open>strings.Split(s, "/")\<close>.\<close>

fun Split :: "string \<Rightarrow> string list" where
  "Split [] = [[]]"
| "Split (c # cs) =
     (if c = CHR ''/'' then [] # Split cs
      else (case Split cs of [] \<Rightarrow> [[c]] | x # xs \<Rightarrow> (c # x) # xs))"

definition mkChannel :: "string option \<Rightarrow> string option \<Rightarrow> string option \<Rightarrow> error + Channel" where
  "mkChannel track risk branch =
     (if (case risk of Some r \<Rightarrow> r \<notin> set channelRisks | None \<Rightarrow> False)
        then Inl (External ''invalid risk in channel name'')
      else if track = Some [] then Inl (External ''invalid track in channel name'')
      else if branch = Some [] then Inl (External ''invalid branch in channel name'')
      else Inr \<lparr>Track = (case track of Some t \<Rightarrow> t | None \<Rightarrow> []),
                Risk = (case risk of Some r \<Rightarrow> r | None \<Rightarrow> []),
                Branch = (case branch of Some b \<Rightarrow> b | None \<Rightarrow> [])\<rparr>)"

definition ParseVerbatim :: "string \<Rightarrow> error + Channel" where
  "ParseVerbatim s =
     (if s = [] then Inl (External ''channel name cannot be empty'')
      else case Split s of
             [p0] \<Rightarrow> (if p0 \<in> set channelRisks then mkChannel None (Some p0) None
                      else mkChannel (Some p0) None None)
           | [p0, p1] \<Rightarrow> (if p0 \<in> set channelRisks then mkChannel None (Some p0) (Some p1)
                          else mkChannel (Some p0) (Some p1) None)
           | [p0, p1, p2] \<Rightarrow> mkChannel (Some p0) (Some p1) (Some p2)
           | _ \<Rightarrow> Inl (External ''channel name has too many components''))"

definition Resolve :: "string \<Rightarrow> string \<Rightarrow> error + string" where
  "Resolve channel newChannel =
     (if newChannel = [] then Inr channel
      else if channel = [] then Inr newChannel
      else case ParseVerbatim channel of
             Inl e \<Rightarrow> Inl e
           | Inr ch \<Rightarrow>
               (let p = Split newChannel
                in if length p > 3 then Inl (External ''channel name has too many components'')
                   else if [] \<in> set p then Inl (External ''no empty components allowed'')
                   else if hd p \<in> set channelRisks \<and> Track ch \<noteq> []
                     then Inr (Track ch @ ''/'' @ newChannel)
                   else Inr newChannel))"

subsection \<open>Collaborators\<close>

text \<open>
  The policy, the tree and the functions of other packages are not among the sources; they
  are parameters. The two channel checks of the policy read its state; its other methods
  that take the available snaps may keep state and return the new policy state.
\<close>

datatype pinnedResult = Resolved string | ErrPinnedTrackSwitch | PinnedOtherError

record 'p env =
  checkDefaultChannel :: "'p \<Rightarrow> Channel \<Rightarrow> error option"
  checkSnapChannel :: "'p \<Rightarrow> Channel \<Rightarrow> string \<Rightarrow> error option"
  systemSnap :: "'p \<Rightarrow> ModelSnap option"
  modelSnapDefaultChannel :: "'p \<Rightarrow> string"
  extraSnapDefaultChannel :: "'p \<Rightarrow> string"
  checkBase :: "'p \<Rightarrow> Info \<Rightarrow> SnapSet option \<Rightarrow> error option \<times> 'p"
  needsImplicitSnaps :: "'p \<Rightarrow> SnapSet option \<Rightarrow> (error + bool) \<times> 'p"
  implicitSnaps :: "'p \<Rightarrow> SnapSet option \<Rightarrow> ModelSnap list \<times> 'p"
  implicitExtraSnaps :: "'p \<Rightarrow> SnapSet option \<Rightarrow> OptionsSnap list \<times> 'p"
  mkFixedDirs :: "error option"
  snapsDir :: string
  localSnapPath :: "SeedSnap \<Rightarrow> string"
  writeAssertions :: "Ref list \<Rightarrow> SeedSnap list \<Rightarrow> SeedSnap list \<Rightarrow> error option"
  writeMeta :: "SeedSnap list \<Rightarrow> SeedSnap list \<Rightarrow> error option"
  SplitInstanceName :: "string \<Rightarrow> string \<times> string"
  ValidateSnap :: "string \<Rightarrow> error option"
  FileExists :: "string \<Rightarrow> bool"
  SameSnap :: "ModelSnap \<Rightarrow> ModelSnap \<Rightarrow> bool"
  ResolvePinned :: "string \<Rightarrow> string \<Rightarrow> pinnedResult"
  whichModelSnap :: "ModelSnap \<Rightarrow> Model \<Rightarrow> string"
  checkType :: "SeedSnap \<Rightarrow> Model \<Rightarrow> error option"
  filepath_Join :: "string \<Rightarrow> string \<Rightarrow> string"
  filepath_Base :: "string \<Rightarrow> string"

section \<open>The step protocol\<close>

definition setOptionsSnapsStep :: int where "setOptionsSnapsStep = 0"
definition startStep :: int where "startStep = 1"
definition localSnapsStep :: int where "localSnapsStep = 2"
definition infoDerivedStep :: int where "infoDerivedStep = 3"
definition snapsToDownloadStep :: int where "snapsToDownloadStep = 4"
definition downloadedStep :: int where "downloadedStep = 5"
definition seedSnapsStep :: int where "seedSnapsStep = 6"
definition writeMetaStep :: int where "writeMetaStep = 7"

text \<open>The Go map \<open>writerStepNames\<close>: a missing key reads as the empty string.\<close>

definition writerStepNames :: "int \<Rightarrow> string" where
  "writerStepNames ws =
     (if ws = startStep then ''Start''
      else if ws = setOptionsSnapsStep then ''SetOptionsSnaps''
      else if ws = localSnapsStep then ''LocalSnaps''
      else if ws = infoDerivedStep then ''InfoDerived''
      else if ws = snapsToDownloadStep then ''SnapsToDownload''
      else if ws = downloadedStep then ''Downloaded''
      else if ws = seedSnapsStep then ''SeedSnaps''
      else if ws = writeMetaStep then ''WriteMeta''
      else [])"

definition String :: "int \<Rightarrow> string res" where
  "String ws =
     (let name = writerStepNames ws
      in if name = [] then Panic (UnknownWriterStep ws) else Ok name)"

definition checkStep :: "'p Writer \<Rightarrow> int \<Rightarrow> unit res \<times> 'p Writer" where
  "checkStep w thisStep =
     (if thisStep \<noteq> expectedStep w then
        (let alright =
               (if thisStep = startStep then expectedStep w = setOptionsSnapsStep
                else if thisStep = snapsToDownloadStep then
                  (expectedStep w = localSnapsStep \<or> expectedStep w = infoDerivedStep)
                  \<and> \<not> length (localSnaps w) \<noteq> 0
                else False)
         in if \<not> alright then
              (case String (expectedStep w) of
                 Panic p \<Rightarrow> (Panic p, w)
               | Err e \<Rightarrow> (Err e, w)
               | Ok name \<Rightarrow>
                   (let expected =
                          (if expectedStep w = setOptionsSnapsStep then ''Start|SetOptionsSnaps''
                           else if expectedStep w = localSnapsStep then
                             (if length (localSnaps w) = 0 then ''SnapsToDownload|LocalSnaps''
                              else name)
                           else name)
                    in (Err (ErrExpectedStep expected (writerStepNames thisStep)), w)))
            else (Ok (), w\<lparr>expectedStep := thisStep + 1\<rparr>))
      else (Ok (), w\<lparr>expectedStep := thisStep + 1\<rparr>))"

text \<open>
  Within the eight named steps \<open>checkStep\<close> accepts the expected step and the two skips,
  and answers every other call with the error naming what it expected.
\<close>

definition expectedNames :: "'p Writer \<Rightarrow> string" where
  "expectedNames w =
     (if expectedStep w = setOptionsSnapsStep then ''Start|SetOptionsSnaps''
      else if expectedStep w = localSnapsStep \<and> localSnaps w = [] then ''SnapsToDownload|LocalSnaps''
      else writerStepNames (expectedStep w))"

definition stepAllowed :: "'p Writer \<Rightarrow> int \<Rightarrow> bool" where
  "stepAllowed w s =
     (s = expectedStep w
      \<or> (s = startStep \<and> expectedStep w = setOptionsSnapsStep)
      \<or> (s = snapsToDownloadStep
          \<and> (expectedStep w = localSnapsStep \<or> expectedStep w = infoDerivedStep)
          \<and> localSnaps w = []))"

section \<open>Setting the info of a seed snap\<close>

text \<open>
  \<open>SetInfo\<close> takes the address of the seed snap and the \<open>*snap.Info\<close>, possibly nil:
  \<open>info.MountFile()\<close> on nil is a nil dereference, after \<open>sn.Info\<close> was assigned.
\<close>

definition SetInfo :: "'p env \<Rightarrow> 'p Writer \<Rightarrow> nat \<Rightarrow> Info option \<Rightarrow> unit res \<times> 'p Writer" where
  "SetInfo E w sn info =
     (let w1 = w\<lparr>seedStore := (seedStore w)(sn := (seedStore w sn)\<lparr>sInfo := info\<rparr>)\<rparr>
      in if local (seedStore w1 sn) then (Ok (), w1)
         else (case info of
                 None \<Rightarrow> (Panic NilDereference, w1)
               | Some i \<Rightarrow>
                   (Ok (), w1\<lparr>seedStore := (seedStore w1)
                      (sn := (seedStore w1 sn)
                         \<lparr>sPath := filepath_Join E (snapsDir E) (filepath_Base E (MountFile i))\<rparr>)\<rparr>)))"

section \<open>The snaps of the model round\<close>

definition modSnaps :: "'p env \<Rightarrow> 'p Writer \<Rightarrow> ModelSnap list" where
  "modSnaps E w =
     (let mods = AllSnaps (model w)
      in case systemSnap E (pol w) of
           None \<Rightarrow> mods
         | Some sys \<Rightarrow>
             (let prepend = \<not> list_ex (\<lambda>m. SameSnap E m sys) mods
              in if prepend then [sys] @ mods else mods))"

section \<open>Names of references\<close>

text \<open>
  \<open>SnapName()\<close> of a \<open>SeedSnap\<close> is the method of its embedded \<open>SnapRef\<close>; on a nil
  interface the call is a nil dereference.
\<close>

definition snapRef_SnapName :: "'p Writer \<Rightarrow> snapRef \<Rightarrow> string res" where
  "snapRef_SnapName w r =
     (case r of
        NilRef \<Rightarrow> Panic NilDereference
      | InfoRef i \<Rightarrow> Ok (infoSnapName i)
      | ModelRef m \<Rightarrow> Ok (msName m)
      | OptRef p \<Rightarrow> Ok (Name (optStore w p)))"

definition SnapName :: "'p Writer \<Rightarrow> nat \<Rightarrow> string res" where
  "SnapName w sn = snapRef_SnapName w (SnapRef (seedStore w sn))"

text \<open>The type assertions \<open>.(*OptionsSnap)\<close> and \<open>.(*SeedSnap)\<close> on a looked-up reference.\<close>

text \<open>An error whose message holds \<open>sn.SnapName()\<close>: the name is computed first.\<close>

definition errNamed :: "'p Writer \<Rightarrow> nat \<Rightarrow> (string \<Rightarrow> error) \<Rightarrow> 'a res" where
  "errNamed w sn mk =
     (case SnapName w sn of
        Ok nm \<Rightarrow> Err (mk nm)
      | Err err \<Rightarrow> Err err
      | Panic p \<Rightarrow> Panic p)"

definition asOptionsSnap :: "setRef option \<Rightarrow> nat option" where
  "asOptionsSnap r = (case r of Some (OptPtr p) \<Rightarrow> Some p | _ \<Rightarrow> None)"

definition asSeedSnap :: "setRef option \<Rightarrow> nat option" where
  "asSeedSnap r = (case r of Some (SeedPtr a) \<Rightarrow> Some a | _ \<Rightarrow> None)"

section \<open>Construction\<close>

text \<open>
  \<open>New\<close>: the policy object is built from the model and the options; its initial state
  \<open>p0\<close> and the memory holding the caller's \<open>OptionsSnap\<close> objects are given.
\<close>

definition emptySeedSnap :: SeedSnap where
  "emptySeedSnap = \<lparr>SnapRef = NilRef, sChannel = [], sPath = [], sInfo = None, ARefs = None,
     local = False, modelSnap = None, optionSnap = None\<rparr>"

definition newWriter :: "'p \<Rightarrow> Model \<Rightarrow> Options \<Rightarrow> (nat \<Rightarrow> OptionsSnap) \<Rightarrow> nat \<Rightarrow> 'p Writer" where
  "newWriter p0 mdl os mem n =
     \<lparr>model = mdl, opts = os, pol = p0, warnings = [], db = None,
      expectedStep = setOptionsSnapsStep, modelRefs = [], optionsSnaps = [],
      consumedOptSnapNum = 0, extraSnapsGuessNum = 0, byNameOptSnaps = [],
      localSnaps = [], byRefLocalSnaps = [], availableSnaps = None,
      toDownload = toDownloadModel, toDownloadConsideredNum = 0,
      snapsFromModel = [], extraSnaps = [],
      optStore = mem, nextOpt = n, seedStore = (\<lambda>_. emptySeedSnap), nextSeed = 0\<rparr>"

definition New :: "'p env \<Rightarrow> 'p \<Rightarrow> Model \<Rightarrow> Options option \<Rightarrow> (nat \<Rightarrow> OptionsSnap) \<Rightarrow> nat \<Rightarrow> 'p Writer res" where
  "New E p0 mdl os mem n =
     (case os of
        None \<Rightarrow> Err (External ''internal error: Writer *Options is nil'')
      | Some os' \<Rightarrow>
          (let w = newWriter p0 mdl os' mem n
           in if DefaultChannel os' \<noteq> [] then
                (case ParseVerbatim (DefaultChannel os') of
                   Inl e \<Rightarrow> Err (External ''cannot use global default option channel'')
                 | Inr deflCh \<Rightarrow>
                     (case checkDefaultChannel E p0 deflCh of
                        Some e \<Rightarrow> Err e
                      | None \<Rightarrow> Ok w))
              else Ok w))"

section \<open>Registering the option snaps\<close>

definition HasSuffix :: "string \<Rightarrow> string \<Rightarrow> bool" where
  "HasSuffix s suffix = (length suffix \<le> length s \<and> drop (length s - length suffix) s = suffix)"

text \<open>The first half of the loop body: the name form or the path form of one entry.\<close>

definition optionSnapForm :: "'p env \<Rightarrow> 'p Writer \<Rightarrow> nat \<Rightarrow> (string \<times> bool) res \<times> 'p Writer" where
  "optionSnapForm E w sn =
     (let e = optStore w sn
      in if Name e \<noteq> [] then
           (if Path e \<noteq> [] then (Err (ErrBothNameAndPath (Name e)), w)
            else if snd (SplitInstanceName E (Name e)) \<noteq> [] then
              (Err (ErrParallelInstance (Name e)), w)
            else (case ValidateSnap E (Name e) of
                    Some err \<Rightarrow> (Err err, w)
                  | None \<Rightarrow>
                      if Contains (byNameOptSnaps w) (Name e) then
                        (Err (ErrRepeatedInOptions (Name e)), w)
                      else (Ok (Name e, False),
                            w\<lparr>byNameOptSnaps := Add (byNameOptSnaps w) (Name e) (OptPtr sn)\<rparr>)))
         else if \<not> HasSuffix (Path e) ''.snap'' then (Err (ErrNotDotSnap (Path e)), w)
         else if \<not> FileExists E (Path e) then (Err (ErrLocalNotExist (Path e)), w)
         else (Ok (Path e, True), w))"

text \<open>The second half: the channel of the entry, then the seed snap of a local entry.\<close>

definition optionSnapChannel :: "'p env \<Rightarrow> 'p Writer \<Rightarrow> nat \<Rightarrow> string \<Rightarrow> unit res \<times> 'p Writer" where
  "optionSnapChannel E w sn whichSnap =
     (let e = optStore w sn
      in if Channel e \<noteq> [] then
           (case ParseVerbatim (Channel e) of
              Inl err \<Rightarrow> (Err (ErrOptionChannel whichSnap err), w)
            | Inr ch \<Rightarrow>
                (case checkSnapChannel E (pol w) ch whichSnap of
                   Some err \<Rightarrow> (Err err, w)
                 | None \<Rightarrow> (Ok (), w)))
         else (Ok (), w))"

definition mapUpdate :: "(nat \<times> nat) list \<Rightarrow> nat \<Rightarrow> nat \<Rightarrow> (nat \<times> nat) list" where
  "mapUpdate m k v = (if map_of m k = None then m @ [(k, v)]
                      else map (\<lambda>(k', v'). if k' = k then (k', v) else (k', v')) m)"

definition addLocalSnap :: "'p Writer \<Rightarrow> nat \<Rightarrow> 'p Writer" where
  "addLocalSnap w sn =
     w\<lparr>localSnaps := mapUpdate (localSnaps w) sn (nextSeed w),
       seedStore := (seedStore w)(nextSeed w :=
          \<lparr>SnapRef = NilRef, sChannel = [], sPath = Path (optStore w sn), sInfo = None,
           ARefs = None, local = True, modelSnap = None, optionSnap = Some sn\<rparr>),
       nextSeed := Suc (nextSeed w)\<rparr>"

fun optSnapsLoop :: "'p env \<Rightarrow> 'p Writer \<Rightarrow> nat list \<Rightarrow> unit res \<times> 'p Writer" where
  "optSnapsLoop E w [] = (Ok (), w)"
| "optSnapsLoop E w (sn # rest) =
     (case optionSnapForm E w sn of
        (Err err, w1) \<Rightarrow> (Err err, w1)
      | (Panic p, w1) \<Rightarrow> (Panic p, w1)
      | (Ok (whichSnap, isLocal), w1) \<Rightarrow>
          (case optionSnapChannel E w1 sn whichSnap of
             (Err err, w2) \<Rightarrow> (Err err, w2)
           | (Panic p, w2) \<Rightarrow> (Panic p, w2)
           | (Ok u, w2) \<Rightarrow>
               optSnapsLoop E (if isLocal then addLocalSnap w2 sn else w2) rest))"

definition SetOptionsSnaps :: "'p env \<Rightarrow> 'p Writer \<Rightarrow> nat list \<Rightarrow> unit res \<times> 'p Writer" where
  "SetOptionsSnaps E w optSnaps =
     (case checkStep w setOptionsSnapsStep of
        (Err err, w1) \<Rightarrow> (Err err, w1)
      | (Panic p, w1) \<Rightarrow> (Panic p, w1)
      | (Ok u, w1) \<Rightarrow>
          (case optSnapsLoop E w1 optSnaps of
             (Err err, w2) \<Rightarrow> (Err err, w2)
           | (Panic p, w2) \<Rightarrow> (Panic p, w2)
           | (Ok u, w2) \<Rightarrow> (Ok (), w2\<lparr>optionsSnaps := optSnaps\<rparr>)))"

section \<open>Start\<close>

text \<open>
  The fetcher made by \<open>newFetcher\<close> is a collaborator: what saving the model gives, what
  fetching the store assertion gives, and the references it holds at the end (after a
  reset or not).
\<close>

datatype storeFetch = StoreFetched | StoreNotFound | StoreFetchError error

record Fetcher =
  Save :: "Model \<Rightarrow> error option"
  FetchStore :: "string \<Rightarrow> storeFetch"
  Refs :: "bool \<Rightarrow> Ref list"

definition Start :: "'p env \<Rightarrow> 'p Writer \<Rightarrow> (Ref \<Rightarrow> SnapDeclaration option) option \<Rightarrow> Fetcher option
    \<Rightarrow> Fetcher res \<times> 'p Writer" where
  "Start E w database newFetcher =
     (case checkStep w startStep of
        (Err err, w1) \<Rightarrow> (Err err, w1)
      | (Panic p, w1) \<Rightarrow> (Panic p, w1)
      | (Ok u, w1) \<Rightarrow>
          (case database of
             None \<Rightarrow> (Err ErrDbNil, w1)
           | Some d \<Rightarrow>
               (case newFetcher of
                  None \<Rightarrow> (Err ErrNewFetcherNil, w1)
                | Some f \<Rightarrow>
                    (let w2 = w1\<lparr>db := Some d\<rparr>;
                         saved = Save f (model w2)
                     in if saved \<noteq> None \<and> \<not> TestSkipCopyUnverifiedModel (opts w2) then
                          (Err (ErrModelPrereqs (the saved)), w2)
                        else
                          (let w3 = (case saved of
                                       None \<Rightarrow> w2
                                     | Some err \<Rightarrow> w2\<lparr>warnings := warnings w2 @ [ErrModelPrereqs err]\<rparr>);
                               fetched = (if Store (model w3) \<noteq> [] then FetchStore f (Store (model w3))
                                          else StoreFetched)
                           in case fetched of
                                StoreFetchError err \<Rightarrow> (Err err, w3)
                              | _ \<Rightarrow>
                                  (let w4 = w3\<lparr>modelRefs := Refs f (saved \<noteq> None)\<rparr>
                                   in case mkFixedDirs E of
                                        Some err \<Rightarrow> (Err err, w4)
                                      | None \<Rightarrow> (Ok f, w4)))))))"

section \<open>Local snaps\<close>

definition LocalSnaps :: "'p Writer \<Rightarrow> nat list res \<times> 'p Writer" where
  "LocalSnaps w =
     (case checkStep w localSnapsStep of
        (Err err, w1) \<Rightarrow> (Err err, w1)
      | (Panic p, w1) \<Rightarrow> (Panic p, w1)
      | (Ok u, w1) \<Rightarrow>
          if length (localSnaps w1) = 0 then (Ok [], w1)
          else (Ok (List.map_filter (map_of (localSnaps w1)) (optionsSnaps w1)), w1))"

text \<open>
  The body of the loop of \<open>InfoDerived\<close> for a local entry \<open>a\<close> whose info \<open>i\<close> is set.
  \<open>sn.SnapRef = sn.Info\<close> shares the info, so the local revision shows in both.
\<close>

definition infoDerivedSnap :: "'p Writer \<Rightarrow> nat \<Rightarrow> Info \<Rightarrow> unit res \<times> 'p Writer" where
  "infoDerivedSnap w a i =
     (let i1 = (if Revision i = 0 then i\<lparr>Revision := - 1\<rparr> else i);
          w1 = w\<lparr>seedStore := (seedStore w)(a := (seedStore w a)\<lparr>SnapRef := InfoRef i1, sInfo := Some i1\<rparr>)\<rparr>;
          nm = infoSnapName i1
      in if Contains (byRefLocalSnaps w1) nm then (Err (ErrLocalRepeated nm), w1)
         else
           (let optSnap = asOptionsSnap (Lookup (byNameOptSnaps w1) nm);
                w2 = (if optSnap \<noteq> None then w1\<lparr>consumedOptSnapNum := consumedOptSnapNum w1 + 1\<rparr> else w1);
                added = (\<lambda>w'. (Ok (), w'\<lparr>byRefLocalSnaps := Add (byRefLocalSnaps w') nm (SeedPtr a)\<rparr>))
            in case optSnap of
                 None \<Rightarrow> added w2
               | Some p \<Rightarrow>
                   if Channel (optStore w2 p) \<noteq> [] then
                     (case optionSnap (seedStore w2 a) of
                        None \<Rightarrow> (Panic NilDereference, w2)
                      | Some q \<Rightarrow>
                          if Channel (optStore w2 q) \<noteq> [] then
                            (if Channel (optStore w2 q) \<noteq> Channel (optStore w2 p) then
                               (Err (ErrDifferentChannels (sPath (seedStore w2 a))
                                       (Channel (optStore w2 q)) (Name (optStore w2 p))
                                       (Channel (optStore w2 p))), w2)
                             else added w2)
                          else added (w2\<lparr>optStore := (optStore w2)
                                 (q := (optStore w2 q)\<lparr>Channel := Channel (optStore w2 p)\<rparr>)\<rparr>))
                   else added w2))"

fun infoDerivedLoop :: "'p Writer \<Rightarrow> nat list \<Rightarrow> unit res \<times> 'p Writer" where
  "infoDerivedLoop w [] = (Ok (), w)"
| "infoDerivedLoop w (optSnap # rest) =
     (case map_of (localSnaps w) optSnap of
        None \<Rightarrow> infoDerivedLoop w rest
      | Some a \<Rightarrow>
          (case sInfo (seedStore w a) of
             None \<Rightarrow> (Err (ErrInfoNotSetDerived (sPath (seedStore w a))), w)
           | Some i \<Rightarrow>
               (case infoDerivedSnap w a i of
                  (Err err, w1) \<Rightarrow> (Err err, w1)
                | (Panic p, w1) \<Rightarrow> (Panic p, w1)
                | (Ok u, w1) \<Rightarrow> infoDerivedLoop w1 rest)))"

definition InfoDerived :: "'p Writer \<Rightarrow> unit res \<times> 'p Writer" where
  "InfoDerived w =
     (case checkStep w infoDerivedStep of
        (Err err, w1) \<Rightarrow> (Err err, w1)
      | (Panic p, w1) \<Rightarrow> (Panic p, w1)
      | (Ok u, w1) \<Rightarrow> infoDerivedLoop w1 (optionsSnaps w1))"

section \<open>Resolving channels\<close>

definition resolveChannel :: "'p env \<Rightarrow> 'p Writer \<Rightarrow> string \<Rightarrow> ModelSnap option \<Rightarrow> nat option \<Rightarrow> string res" where
  "resolveChannel E w whichSnap modSnap optSnap =
     (let optChannel0 = (case optSnap of None \<Rightarrow> [] | Some p \<Rightarrow> Channel (optStore w p));
          optChannel = (if optChannel0 = [] then DefaultChannel (opts w) else optChannel0);
          pinned = (case modSnap of
                      None \<Rightarrow> None
                    | Some m \<Rightarrow> if PinnedTrack m \<noteq> [] then Some m else None)
      in case pinned of
           Some m \<Rightarrow>
             (case ResolvePinned E (PinnedTrack m) optChannel of
                ErrPinnedTrackSwitch \<Rightarrow>
                  Err (ErrPinnedTrackMismatch optChannel (whichModelSnap E m (model w)) (PinnedTrack m))
              | PinnedOtherError \<Rightarrow>
                  Err (ErrCannotResolvePinned (PinnedTrack m) optChannel whichSnap)
              | Resolved resChannel \<Rightarrow> Ok resChannel)
         | None \<Rightarrow>
             (let defaultChannel =
                    (case modSnap of
                       Some m \<Rightarrow> if msDefaultChannel m = [] then modelSnapDefaultChannel E (pol w)
                                 else msDefaultChannel m
                     | None \<Rightarrow> extraSnapDefaultChannel E (pol w))
              in case Resolve defaultChannel optChannel of
                   Inl err \<Rightarrow> Err (ErrCannotResolve defaultChannel optChannel whichSnap)
                 | Inr resChannel \<Rightarrow> Ok resChannel))"

section \<open>The snaps to download\<close>

definition allocSeed :: "'p Writer \<Rightarrow> SeedSnap \<Rightarrow> nat \<times> 'p Writer" where
  "allocSeed w s = (nextSeed w, w\<lparr>seedStore := (seedStore w)(nextSeed w := s), nextSeed := Suc (nextSeed w)\<rparr>)"

definition modelSnapToSeed :: "'p env \<Rightarrow> 'p Writer \<Rightarrow> ModelSnap \<Rightarrow> nat res \<times> 'p Writer" where
  "modelSnapToSeed E w modSnap =
     (let found = asSeedSnap (Lookup (byRefLocalSnaps w) (msName modSnap));
          (sn, optSnap, w1) =
             (case found of
                None \<Rightarrow>
                  (let optSnap = asOptionsSnap (Lookup (byNameOptSnaps w) (msName modSnap));
                       (a, w') = allocSeed w (emptySeedSnap\<lparr>SnapRef := ModelRef modSnap,
                                   local := False, optionSnap := optSnap\<rparr>)
                   in (a, optSnap, w'))
              | Some a \<Rightarrow> (a, optionSnap (seedStore w a), w))
      in case resolveChannel E w1 (msName modSnap) (Some modSnap) optSnap of
           Err err \<Rightarrow> (Err err, w1)
         | Panic p \<Rightarrow> (Panic p, w1)
         | Ok ch \<Rightarrow>
             (Ok sn, w1\<lparr>seedStore := (seedStore w1)
                (sn := (seedStore w1 sn)\<lparr>modelSnap := Some modSnap, sChannel := ch\<rparr>)\<rparr>))"

fun modelSnapsLoop :: "'p env \<Rightarrow> 'p Writer \<Rightarrow> nat list \<Rightarrow> ModelSnap list \<Rightarrow> nat list res \<times> 'p Writer" where
  "modelSnapsLoop E w toDl [] = (Ok toDl, w)"
| "modelSnapsLoop E w toDl (modSnap # rest) =
     (case modelSnapToSeed E w modSnap of
        (Err err, w1) \<Rightarrow> (Err err, w1)
      | (Panic p, w1) \<Rightarrow> (Panic p, w1)
      | (Ok sn, w1) \<Rightarrow>
          (let toDl1 = (if \<not> local (seedStore w1 sn) then toDl @ [sn] else toDl);
               w2 = (if optionSnap (seedStore w1 sn) \<noteq> None
                     then w1\<lparr>consumedOptSnapNum := consumedOptSnapNum w1 + 1\<rparr> else w1)
           in modelSnapsLoop E (w2\<lparr>snapsFromModel := snapsFromModel w2 @ [sn]\<rparr>) toDl1 rest))"

definition modelSnapsToDownload :: "'p env \<Rightarrow> 'p Writer \<Rightarrow> ModelSnap list \<Rightarrow> nat list res \<times> 'p Writer" where
  "modelSnapsToDownload E w mods =
     (let alreadyConsidered = int (length (snapsFromModel w))
      in case modelSnapsLoop E w [] mods of
           (Err err, w1) \<Rightarrow> (Err err, w1)
         | (Panic p, w1) \<Rightarrow> (Panic p, w1)
         | (Ok toDl, w1) \<Rightarrow>
             (Ok toDl,
              w1\<lparr>toDownloadConsideredNum := int (length (snapsFromModel w1)) - alreadyConsidered,
                 extraSnapsGuessNum := int (length (optionsSnaps w1)) - consumedOptSnapNum w1\<rparr>))"

text \<open>
  \<open>optExtraSnaps\<close>: \<open>availableSnaps.Contains\<close> on a nil set, or on a seed snap whose
  \<open>SnapRef\<close> is nil, is a nil dereference.
\<close>

fun optExtraLoop :: "'p Writer \<Rightarrow> nat list \<Rightarrow> nat list \<Rightarrow> nat list res" where
  "optExtraLoop w extra [] = Ok extra"
| "optExtraLoop w extra (optSnap # rest) =
     (case (case map_of (localSnaps w) optSnap of
              None \<Rightarrow> Ok (Name (optStore w optSnap))
            | Some sn \<Rightarrow> SnapName w sn) of
        Err err \<Rightarrow> Err err
      | Panic p \<Rightarrow> Panic p
      | Ok nm \<Rightarrow>
          (case availableSnaps w of
             None \<Rightarrow> Panic NilDereference
           | Some avail \<Rightarrow>
               if Contains avail nm then optExtraLoop w extra rest
               else optExtraLoop w (extra @ [optSnap]) rest))"

definition optExtraSnaps :: "'p Writer \<Rightarrow> nat list res" where
  "optExtraSnaps w = optExtraLoop w [] (optionsSnaps w)"

definition extraSnapToSeed :: "'p env \<Rightarrow> 'p Writer \<Rightarrow> nat \<Rightarrow> nat res \<times> 'p Writer" where
  "extraSnapToSeed E w optSnap =
     (let (sn, w1) =
            (case map_of (localSnaps w) optSnap of
               None \<Rightarrow> allocSeed w (emptySeedSnap\<lparr>SnapRef := OptRef optSnap,
                          local := False, optionSnap := Some optSnap\<rparr>)
             | Some a \<Rightarrow> (a, w))
      in case SnapName w1 sn of
           Err err \<Rightarrow> (Err err, w1)
         | Panic p \<Rightarrow> (Panic p, w1)
         | Ok nm \<Rightarrow>
             if nm = [] then (Err ErrExtraNoName, w1)
             else (case resolveChannel E w1 nm None (Some optSnap) of
                     Err err \<Rightarrow> (Err err, w1)
                   | Panic p \<Rightarrow> (Panic p, w1)
                   | Ok ch \<Rightarrow>
                       (Ok sn, w1\<lparr>seedStore := (seedStore w1)
                          (sn := (seedStore w1 sn)\<lparr>sChannel := ch\<rparr>)\<rparr>)))"

fun extraSnapsLoop :: "'p env \<Rightarrow> 'p Writer \<Rightarrow> nat list \<Rightarrow> nat list \<Rightarrow> nat list res \<times> 'p Writer" where
  "extraSnapsLoop E w toDl [] = (Ok toDl, w)"
| "extraSnapsLoop E w toDl (optSnap # rest) =
     (case extraSnapToSeed E w optSnap of
        (Err err, w1) \<Rightarrow> (Err err, w1)
      | (Panic p, w1) \<Rightarrow> (Panic p, w1)
      | (Ok sn, w1) \<Rightarrow>
          (let toDl1 = (if \<not> local (seedStore w1 sn) then toDl @ [sn] else toDl)
           in extraSnapsLoop E (w1\<lparr>extraSnaps := extraSnaps w1 @ [sn]\<rparr>) toDl1 rest))"

definition extraSnapsToDownload :: "'p env \<Rightarrow> 'p Writer \<Rightarrow> nat list \<Rightarrow> nat list res \<times> 'p Writer" where
  "extraSnapsToDownload E w extras =
     (let alreadyConsidered = int (length (extraSnaps w))
      in case extraSnapsLoop E w [] extras of
           (Err err, w1) \<Rightarrow> (Err err, w1)
         | (Panic p, w1) \<Rightarrow> (Panic p, w1)
         | (Ok toDl, w1) \<Rightarrow>
             (Ok toDl,
              w1\<lparr>toDownloadConsideredNum := int (length (extraSnaps w1)) - alreadyConsidered\<rparr>))"

text \<open>
  The \<open>OptionsSnap\<close> objects that the policy makes for the extra-implicit round are new
  objects: they are put at fresh addresses of \<open>optStore\<close>.
\<close>

fun allocOpts :: "'p Writer \<Rightarrow> OptionsSnap list \<Rightarrow> nat list \<times> 'p Writer" where
  "allocOpts w [] = ([], w)"
| "allocOpts w (e # es) =
     (let (ps, w1) = allocOpts (w\<lparr>optStore := (optStore w)(nextOpt w := e), nextOpt := Suc (nextOpt w)\<rparr>) es
      in (nextOpt w # ps, w1))"

definition SnapsToDownload :: "'p env \<Rightarrow> 'p Writer \<Rightarrow> nat list res \<times> 'p Writer" where
  "SnapsToDownload E w =
     (case checkStep w snapsToDownloadStep of
        (Err err, w1) \<Rightarrow> (Err err, w1)
      | (Panic p, w1) \<Rightarrow> (Panic p, w1)
      | (Ok u, w1) \<Rightarrow>
          (case toDownload w1 of
             toDownloadModel \<Rightarrow> modelSnapsToDownload E w1 (modSnaps E w1)
           | toDownloadImplicit \<Rightarrow>
               (let (mods, p1) = implicitSnaps E (pol w1) (availableSnaps w1)
                in modelSnapsToDownload E (w1\<lparr>pol := p1\<rparr>) mods)
           | toDownloadExtra \<Rightarrow>
               (case optExtraSnaps w1 of
                  Err err \<Rightarrow> (Err err, w1)
                | Panic p \<Rightarrow> (Panic p, w1)
                | Ok extras \<Rightarrow> extraSnapsToDownload E w1 extras)
           | toDownloadExtraImplicit \<Rightarrow>
               (let (es, p1) = implicitExtraSnaps E (pol w1) (availableSnaps w1);
                    (extras, w2) = allocOpts (w1\<lparr>pol := p1\<rparr>) es
                in extraSnapsToDownload E w2 extras)))"

section \<open>Checking the downloaded snaps\<close>

definition SnapDeclarationType :: string where
  "SnapDeclarationType = ''snap-declaration''"

text \<open>
  \<open>snapDecl\<close>: the first reference of type snap-declaration is resolved in the database;
  \<open>w.db.Find\<close> on a nil database is a nil dereference.
\<close>

definition snapDecl :: "'p Writer \<Rightarrow> nat \<Rightarrow> SnapDeclaration res" where
  "snapDecl w sn =
     (case find (\<lambda>r. refType r = SnapDeclarationType)
             (case ARefs (seedStore w sn) of None \<Rightarrow> [] | Some refs \<Rightarrow> refs) of
        Some r \<Rightarrow>
          (case db w of
             None \<Rightarrow> Panic NilDereference
           | Some lookup \<Rightarrow>
               (case lookup r of
                  None \<Rightarrow> Err ErrLostAssertion
                | Some a \<Rightarrow> Ok a))
      | None \<Rightarrow> errNamed w sn ErrNoSnapDecl)"

definition checkPublisher :: "'p Writer \<Rightarrow> nat \<Rightarrow> unit res" where
  "checkPublisher w sn =
     (if local (seedStore w sn) \<and> ARefs (seedStore w sn) = None then Ok ()
      else case sInfo (seedStore w sn) of
             None \<Rightarrow> Panic NilDereference
           | Some i \<Rightarrow>
               (case (case GetType i of
                        TypeKernel \<Rightarrow> Some ''kernel''
                      | TypeGadget \<Rightarrow> Some ''gadget''
                      | _ \<Rightarrow> None) of
                  None \<Rightarrow> Ok ()
                | Some kind \<Rightarrow>
                    (case snapDecl w sn of
                       Err err \<Rightarrow> Err err
                     | Panic p \<Rightarrow> Panic p
                     | Ok decl \<Rightarrow>
                         (let publisher = PublisherID decl
                          in if publisher \<noteq> BrandID (model w) \<and> publisher \<noteq> ''canonical'' then
                               Err (ErrPublisher kind (infoSnapName i) publisher (BrandID (model w)))
                             else Ok ()))))"

text \<open>The first loop of \<open>downloaded\<close>: every snap has its info, and becomes available.\<close>

fun availableLoop :: "'p Writer \<Rightarrow> nat list \<Rightarrow> unit res \<times> 'p Writer" where
  "availableLoop w [] = (Ok (), w)"
| "availableLoop w (sn # rest) =
     (case SnapName w sn of
        Panic p \<Rightarrow> (Panic p, w)
      | Err err \<Rightarrow> (Err err, w)
      | Ok nm \<Rightarrow>
          if sInfo (seedStore w sn) = None then (Err (ErrInfoNotSetDownloaded nm), w)
          else (case availableSnaps w of
                  None \<Rightarrow> (Panic NilDereference, w)
                | Some avail \<Rightarrow>
                    availableLoop (w\<lparr>availableSnaps := Some (Add avail nm (SeedPtr sn))\<rparr>) rest))"

text \<open>The checks of one snap in the second loop, up to the default providers.\<close>

definition checkSnap :: "'p env \<Rightarrow> 'p Writer \<Rightarrow> nat \<Rightarrow> unit res \<times> 'p Writer" where
  "checkSnap E w sn =
     (case sInfo (seedStore w sn) of
        None \<Rightarrow> (Panic NilDereference, w)
      | Some i \<Rightarrow>
          if \<not> local (seedStore w sn) \<and> infoID i = [] then (errNamed w sn ErrSnapIDNotSet, w)
          else if infoID i \<noteq> [] \<and> ARefs (seedStore w sn) = None then
            (errNamed w sn ErrARefsNotSet, w)
          else (case checkType E (seedStore w sn) (model w) of
                  Some err \<Rightarrow> (Err err, w)
                | None \<Rightarrow>
                    if NeedsClassic i \<and> \<not> Classic (model w) then
                      (Err (ErrClassicSnap (infoSnapName i)), w)
                    else (case checkBase E (pol w) i (availableSnaps w) of
                            (Some err, p1) \<Rightarrow> (Err err, w\<lparr>pol := p1\<rparr>)
                          | (None, p1) \<Rightarrow>
                              (case availableSnaps w of
                                 None \<Rightarrow>
                                   (if NeededDefaultProviders i = [] then (Ok (), w\<lparr>pol := p1\<rparr>)
                                    else (Panic NilDereference, w\<lparr>pol := p1\<rparr>))
                               | Some avail \<Rightarrow>
                                   (case find (\<lambda>dp. \<not> Contains avail dp) (NeededDefaultProviders i) of
                                      Some dp \<Rightarrow>
                                        (Err (ErrMissingDefaultProvider (infoSnapName i) dp),
                                         w\<lparr>pol := p1\<rparr>)
                                    | None \<Rightarrow> (Ok (), w\<lparr>pol := p1\<rparr>))))))"

fun checksLoop :: "'p env \<Rightarrow> 'p Writer \<Rightarrow> nat list \<Rightarrow> unit res \<times> 'p Writer" where
  "checksLoop E w [] = (Ok (), w)"
| "checksLoop E w (sn # rest) =
     (case checkSnap E w sn of
        (Err err, w1) \<Rightarrow> (Err err, w1)
      | (Panic p, w1) \<Rightarrow> (Panic p, w1)
      | (Ok u, w1) \<Rightarrow>
          (case checkPublisher w1 sn of
             Err err \<Rightarrow> (Err err, w1)
           | Panic p \<Rightarrow> (Panic p, w1)
           | Ok u \<Rightarrow> checksLoop E w1 rest))"

definition downloaded :: "'p env \<Rightarrow> 'p Writer \<Rightarrow> nat list \<Rightarrow> unit res \<times> 'p Writer" where
  "downloaded E w seedSnaps =
     (let w0 = (if availableSnaps w = None then w\<lparr>availableSnaps := Some []\<rparr> else w)
      in case availableLoop w0 seedSnaps of
           (Err err, w1) \<Rightarrow> (Err err, w1)
         | (Panic p, w1) \<Rightarrow> (Panic p, w1)
         | (Ok u, w1) \<Rightarrow> checksLoop E w1 seedSnaps)"

text \<open>\<open>considered[len(considered)-w.toDownloadConsideredNum:]\<close>, a run-time panic out of range.\<close>

definition sliceFrom :: "nat list \<Rightarrow> int \<Rightarrow> nat list res" where
  "sliceFrom xs lo =
     (if lo < 0 \<or> int (length xs) < lo then Panic SliceBoundsOutOfRange
      else Ok (drop (nat lo) xs))"

text \<open>The second switch of \<open>Downloaded\<close>: which round comes next, or completion.\<close>

definition rearm :: "'p Writer \<Rightarrow> snapsToDownloadSet \<Rightarrow> bool res \<times> 'p Writer" where
  "rearm w next = (Ok False, w\<lparr>toDownload := next, expectedStep := snapsToDownloadStep\<rparr>)"

definition afterImplicit :: "'p Writer \<Rightarrow> bool res \<times> 'p Writer" where
  "afterImplicit w =
     (if extraSnapsGuessNum w > 0 then rearm w toDownloadExtra else (Ok True, w))"

definition nextRound :: "'p env \<Rightarrow> 'p Writer \<Rightarrow> bool res \<times> 'p Writer" where
  "nextRound E w =
     (case toDownload w of
        toDownloadModel \<Rightarrow>
          (case needsImplicitSnaps E (pol w) (availableSnaps w) of
             (Inl err, p1) \<Rightarrow> (Err err, w\<lparr>pol := p1\<rparr>)
           | (Inr implicitNeeded, p1) \<Rightarrow>
               if implicitNeeded then rearm (w\<lparr>pol := p1\<rparr>) toDownloadImplicit
               else afterImplicit (w\<lparr>pol := p1\<rparr>))
      | toDownloadImplicit \<Rightarrow> afterImplicit w
      | toDownloadExtra \<Rightarrow>
          (case needsImplicitSnaps E (pol w) (availableSnaps w) of
             (Inl err, p1) \<Rightarrow> (Err err, w\<lparr>pol := p1\<rparr>)
           | (Inr implicitNeeded, p1) \<Rightarrow>
               if implicitNeeded then rearm (w\<lparr>pol := p1\<rparr>) toDownloadExtraImplicit
               else (Ok True, w\<lparr>pol := p1\<rparr>))
      | toDownloadExtraImplicit \<Rightarrow> (Ok True, w))"

text \<open>The first switch of \<open>Downloaded\<close> and the slice: the batch of the current round.\<close>

definition consideredBatch :: "'p Writer \<Rightarrow> nat list res" where
  "consideredBatch w =
     (let considered =
            (case toDownload w of
               toDownloadImplicit \<Rightarrow> snapsFromModel w
             | toDownloadModel \<Rightarrow> snapsFromModel w
             | toDownloadExtraImplicit \<Rightarrow> extraSnaps w
             | toDownloadExtra \<Rightarrow> extraSnaps w)
      in sliceFrom considered (int (length considered) - toDownloadConsideredNum w))"

text \<open>The batch is taken and checked.\<close>

definition checkBatch :: "'p env \<Rightarrow> 'p Writer \<Rightarrow> unit res \<times> 'p Writer" where
  "checkBatch E w =
     (case consideredBatch w of
        Err err \<Rightarrow> (Err err, w)
      | Panic p \<Rightarrow> (Panic p, w)
      | Ok batch \<Rightarrow> downloaded E w batch)"

text \<open>\<open>Downloaded\<close>: the result is \<open>complete\<close>; an error stands for \<open>(false, err)\<close>.\<close>

definition Downloaded :: "'p env \<Rightarrow> 'p Writer \<Rightarrow> bool res \<times> 'p Writer" where
  "Downloaded E w =
     (case checkStep w downloadedStep of
        (Err err, w1) \<Rightarrow> (Err err, w1)
      | (Panic p, w1) \<Rightarrow> (Panic p, w1)
      | (Ok u, w1) \<Rightarrow>
          (case checkBatch E w1 of
             (Err err, w2) \<Rightarrow> (Err err, w2)
           | (Panic p, w2) \<Rightarrow> (Panic p, w2)
           | (Ok u, w2) \<Rightarrow> nextRound E w2))"

text \<open>
  The loop that the documentation of the writer asks of its caller: \<open>SnapsToDownload\<close>,
  then the caller fills the seed snaps (\<open>fetch\<close>, any change of the store of seed
  snaps), then \<open>Downloaded\<close>, until it answers complete. The loop is given a number of
  rounds; \<open>None\<close> is the loop still running after them.
\<close>

fun downloadLoop :: "'p env \<Rightarrow> ((nat \<Rightarrow> SeedSnap) \<Rightarrow> nat list \<Rightarrow> (nat \<Rightarrow> SeedSnap)) \<Rightarrow> nat \<Rightarrow> 'p Writer
    \<Rightarrow> (unit res \<times> 'p Writer) option" where
  "downloadLoop E fetch 0 w = None"
| "downloadLoop E fetch (Suc n) w =
     (case SnapsToDownload E w of
        (Err err, w1) \<Rightarrow> Some (Err err, w1)
      | (Panic p, w1) \<Rightarrow> Some (Panic p, w1)
      | (Ok toDl, w1) \<Rightarrow>
          (case Downloaded E (w1\<lparr>seedStore := fetch (seedStore w1) toDl\<rparr>) of
             (Err err, w2) \<Rightarrow> Some (Err err, w2)
           | (Panic p, w2) \<Rightarrow> Some (Panic p, w2)
           | (Ok complete, w2) \<Rightarrow>
               if complete then Some (Ok (), w2) else downloadLoop E fetch n w2))"

text \<open>
  The order of the rounds as the specification words it: after the model round the implicit
  round when the policy reports implicit snaps needed, else the extra round when option
  entries remain unconsumed; after the implicit round the extra round on the same
  condition; after the extra round the extra-implicit round when the policy reports
  implicit snaps needed; after the extra-implicit round nothing.
\<close>

definition roundAfter :: "snapsToDownloadSet \<Rightarrow> bool \<Rightarrow> bool \<Rightarrow> snapsToDownloadSet option" where
  "roundAfter r implicitNeeded unconsumed =
     (case r of
        toDownloadModel \<Rightarrow>
          if implicitNeeded then Some toDownloadImplicit
          else if unconsumed then Some toDownloadExtra else None
      | toDownloadImplicit \<Rightarrow> if unconsumed then Some toDownloadExtra else None
      | toDownloadExtra \<Rightarrow> if implicitNeeded then Some toDownloadExtraImplicit else None
      | toDownloadExtraImplicit \<Rightarrow> None)"

definition roundNumber :: "snapsToDownloadSet \<Rightarrow> nat" where
  "roundNumber r =
     (case r of
        toDownloadModel \<Rightarrow> 1
      | toDownloadImplicit \<Rightarrow> 2
      | toDownloadExtra \<Rightarrow> 3
      | toDownloadExtraImplicit \<Rightarrow> 4)"

section \<open>Copying the snaps and writing the metadata\<close>

fun seedSnapsLoop :: "'p env \<Rightarrow> (string \<Rightarrow> string \<Rightarrow> string \<Rightarrow> error option) \<Rightarrow> 'p Writer \<Rightarrow> nat list
    \<Rightarrow> unit res \<times> 'p Writer" where
  "seedSnapsLoop E copySnap w [] = (Ok (), w)"
| "seedSnapsLoop E copySnap w (sn # rest) =
     (if \<not> local (seedStore w sn) then
        (case sInfo (seedStore w sn) of
           None \<Rightarrow> (Panic NilDereference, w)
         | Some i \<Rightarrow>
             (let expectedPath = filepath_Join E (snapsDir E) (filepath_Base E (MountFile i))
              in if sPath (seedStore w sn) \<noteq> expectedPath then
                   (errNamed w sn (\<lambda>nm. ErrPathNotSet nm expectedPath), w)
                 else if \<not> FileExists E expectedPath then (Err (ErrFileShouldExist expectedPath), w)
                 else seedSnapsLoop E copySnap w rest))
      else
        (let dst = localSnapPath E (seedStore w sn)
         in case sInfo (seedStore w sn) of
              None \<Rightarrow> (Panic NilDereference, w)
            | Some i \<Rightarrow>
                (case copySnap (infoSnapName i) (sPath (seedStore w sn)) dst of
                   Some err \<Rightarrow> (Err err, w)
                 | None \<Rightarrow>
                     seedSnapsLoop E copySnap
                       (w\<lparr>seedStore := (seedStore w)(sn := (seedStore w sn)\<lparr>sPath := dst\<rparr>)\<rparr>) rest)))"

definition SeedSnaps :: "'p env \<Rightarrow> 'p Writer \<Rightarrow> (string \<Rightarrow> string \<Rightarrow> string \<Rightarrow> error option)
    \<Rightarrow> unit res \<times> 'p Writer" where
  "SeedSnaps E w copySnap =
     (case checkStep w seedSnapsStep of
        (Err err, w1) \<Rightarrow> (Err err, w1)
      | (Panic p, w1) \<Rightarrow> (Panic p, w1)
      | (Ok u, w1) \<Rightarrow>
          (case seedSnapsLoop E copySnap w1 (snapsFromModel w1) of
             (Err err, w2) \<Rightarrow> (Err err, w2)
           | (Panic p, w2) \<Rightarrow> (Panic p, w2)
           | (Ok u, w2) \<Rightarrow> seedSnapsLoop E copySnap w2 (extraSnaps w2)))"

definition WriteMeta :: "'p env \<Rightarrow> 'p Writer \<Rightarrow> unit res \<times> 'p Writer" where
  "WriteMeta E w =
     (case checkStep w writeMetaStep of
        (Err err, w1) \<Rightarrow> (Err err, w1)
      | (Panic p, w1) \<Rightarrow> (Panic p, w1)
      | (Ok u, w1) \<Rightarrow>
          (let fromModel = map (seedStore w1) (snapsFromModel w1);
               extra = map (seedStore w1) (extraSnaps w1)
           in case writeAssertions E (modelRefs w1) fromModel extra of
                Some err \<Rightarrow> (Err err, w1)
              | None \<Rightarrow>
                  (case writeMeta E fromModel extra of
                     Some err \<Rightarrow> (Err err, w1)
                   | None \<Rightarrow> (Ok (), w1))))"

section \<open>Auxiliary notions of the properties\<close>

text \<open>The fields of the writer that computing the snaps of a round leaves alone.\<close>

definition static :: "'p Writer \<Rightarrow>
    Model \<times> Options \<times> 'p \<times> int \<times> nat list \<times> SnapSet \<times> (nat \<times> nat) list \<times> SnapSet
    \<times> SnapSet option \<times> snapsToDownloadSet \<times> (nat \<Rightarrow> OptionsSnap) \<times> nat" where
  "static w = (model w, opts w, pol w, expectedStep w, optionsSnaps w, byNameOptSnaps w,
     localSnaps w, byRefLocalSnaps w, availableSnaps w, toDownload w, optStore w, nextOpt w)"

text \<open>
  The option entry that \<open>modelSnapToSeed\<close> takes for a model snap: the entry of the local
  snap of that name, or else the entry registered under that name. The effective option
  channel: the channel of the entry, or the global default channel when the entry has none.
\<close>

definition optSnapOf :: "'p Writer \<Rightarrow> ModelSnap \<Rightarrow> nat option" where
  "optSnapOf w m =
     (case asSeedSnap (Lookup (byRefLocalSnaps w) (msName m)) of
        None \<Rightarrow> asOptionsSnap (Lookup (byNameOptSnaps w) (msName m))
      | Some a \<Rightarrow> optionSnap (seedStore w a))"

definition effectiveOptChannel :: "'p Writer \<Rightarrow> nat option \<Rightarrow> string" where
  "effectiveOptChannel w optSnap =
     (let c = (case optSnap of None \<Rightarrow> [] | Some p \<Rightarrow> Channel (optStore w p))
      in if c = [] then DefaultChannel (opts w) else c)"

definition resolveSnap :: "'p env \<Rightarrow> 'p Writer \<Rightarrow> ModelSnap \<Rightarrow> string res" where
  "resolveSnap E w m = resolveChannel E w (msName m) (Some m) (optSnapOf w m)"

text \<open>
  The track of the effective option channel is incompatible with the pinned track of the
  model snap: \<open>channel.ResolvePinned\<close> answers \<open>ErrPinnedTrackSwitch\<close>.
\<close>

definition pinnedMismatch :: "'p env \<Rightarrow> 'p Writer \<Rightarrow> ModelSnap \<Rightarrow> bool" where
  "pinnedMismatch E w m =
     (PinnedTrack m \<noteq> []
      \<and> ResolvePinned E (PinnedTrack m) (effectiveOptChannel w (optSnapOf w m)) = ErrPinnedTrackSwitch)"

text \<open>
  Allocation gives fresh addresses: the seed snaps known to the set of local snaps lie
  below the next address to be allocated.
\<close>

definition localsAllocated :: "'p Writer \<Rightarrow> bool" where
  "localsAllocated w = (\<forall>(nm, r) \<in> set (byRefLocalSnaps w). case r of SeedPtr a \<Rightarrow> a < nextSeed w | OptPtr p \<Rightarrow> True)"

section \<open>A sample image\<close>

text \<open>
  Collaborators, a model and writer states used to run the definitions: a policy with no
  system snap that never asks for implicit snaps, a tree under \<open>seed/snaps\<close>, snap
  identity by name, and a pinned-track resolution that refuses another track.
\<close>

definition demoEnv :: "unit env" where
  "demoEnv = \<lparr>checkDefaultChannel = (\<lambda>p c. None), checkSnapChannel = (\<lambda>p c s. None),
     systemSnap = (\<lambda>p. None), modelSnapDefaultChannel = (\<lambda>p. ''stable''),
     extraSnapDefaultChannel = (\<lambda>p. ''stable''),
     checkBase = (\<lambda>p i a. (None, p)), needsImplicitSnaps = (\<lambda>p a. (Inr False, p)),
     implicitSnaps = (\<lambda>p a. ([], p)), implicitExtraSnaps = (\<lambda>p a. ([], p)),
     mkFixedDirs = None, snapsDir = ''seed/snaps'',
     localSnapPath = (\<lambda>s. ''seed/snaps/'' @ sPath s),
     writeAssertions = (\<lambda>r a b. None), writeMeta = (\<lambda>a b. None),
     SplitInstanceName = (\<lambda>s. (s, [])), ValidateSnap = (\<lambda>s. None), FileExists = (\<lambda>s. True),
     SameSnap = (\<lambda>a b. msName a = msName b),
     ResolvePinned = (\<lambda>t c. if c = [] then Resolved t else
        (case ParseVerbatim c of
           Inl e \<Rightarrow> PinnedOtherError
         | Inr ch \<Rightarrow> if Track ch \<noteq> [] \<and> Track ch \<noteq> t then ErrPinnedTrackSwitch
                     else Resolved (t @ ''/'' @ Risk ch))),
     whichModelSnap = (\<lambda>m mo. msName m), checkType = (\<lambda>s m. None),
     filepath_Join = (\<lambda>a b. a @ ''/'' @ b), filepath_Base = (\<lambda>s. last (Split s))\<rparr>"

definition demoModel :: Model where
  "demoModel = \<lparr>AllSnaps = [], BrandID = ''my-brand'', Classic = False, Store = []\<rparr>"

definition demoOptions :: Options where
  "demoOptions = \<lparr>SeedDir = ''seed'', DefaultChannel = [], TestSkipCopyUnverifiedModel = False\<rparr>"

definition demoFetcher :: Fetcher where
  "demoFetcher = \<lparr>Save = (\<lambda>m. None), FetchStore = (\<lambda>s. StoreFetched), Refs = (\<lambda>b. [])\<rparr>"

definition demoDb :: "Ref \<Rightarrow> SnapDeclaration option" where
  "demoDb r = None"

definition emptyOpt :: OptionsSnap where
  "emptyOpt = \<lparr>Name = [], SnapID = [], Path = [], Channel = []\<rparr>"

definition demoInfo :: Info where
  "demoInfo = \<lparr>infoSnapName = ''foo'', infoID = ''fooid'', Revision = 3, GetType = TypeApp,
     NeedsClassic = False, MountFile = ''/snaps/foo_3.snap'', NeededDefaultProviders = []\<rparr>"

definition coreSnap :: ModelSnap where
  "coreSnap = \<lparr>msName = ''core'', msSnapID = [], PinnedTrack = [], msDefaultChannel = []\<rparr>"

text \<open>A run with no option snaps and an empty model, up to and past \<open>WriteMeta\<close>.\<close>

definition run0 :: "unit Writer" where
  "run0 = newWriter () demoModel demoOptions (\<lambda>_. emptyOpt) 0"

definition run1 :: "unit Writer" where
  "run1 = snd (Start demoEnv run0 (Some demoDb) (Some demoFetcher))"

definition run2 :: "unit Writer" where
  "run2 = snd (SnapsToDownload demoEnv run1)"

definition run3 :: "unit Writer" where
  "run3 = snd (Downloaded demoEnv run2)"

definition run4 :: "unit Writer" where
  "run4 = snd (SeedSnaps demoEnv run3 (\<lambda>nm src dst. None))"

definition run5 :: "unit Writer" where
  "run5 = snd (WriteMeta demoEnv run4)"

section \<open>Properties\<close>

lemmas step_defs =
  setOptionsSnapsStep_def startStep_def localSnapsStep_def infoDerivedStep_def
  snapsToDownloadStep_def downloadedStep_def seedSnapsStep_def writeMetaStep_def

lemmas demo_defs =
  demoEnv_def demoModel_def demoOptions_def demoFetcher_def demoDb_def emptyOpt_def
  demoInfo_def coreSnap_def newWriter_def emptySeedSnap_def

subsection \<open>The step protocol\<close>

lemma checkStep_allowed:
  "stepAllowed w s \<Longrightarrow> checkStep w s = (Ok (), w\<lparr>expectedStep := s + 1\<rparr>)"
  by (auto simp: checkStep_def stepAllowed_def Let_def step_defs)

lemma checkStep_refused:
  assumes "\<not> stepAllowed w s" and "0 \<le> expectedStep w" and "expectedStep w \<le> 7"
  shows "checkStep w s = (Err (ErrExpectedStep (expectedNames w) (writerStepNames s)), w)"
proof -
  have "expectedStep w \<in> {0, 1, 2, 3, 4, 5, 6, 7}"
    using assms(2,3) by auto
  then have nm: "String (expectedStep w) = Ok (writerStepNames (expectedStep w))"
    by (auto simp: String_def writerStepNames_def step_defs Let_def)
  from assms(1) show ?thesis
    by (auto simp: checkStep_def stepAllowed_def expectedNames_def nm Let_def step_defs)
qed

lemma checkStep_past_the_end:
  assumes "\<not> stepAllowed w s" and "expectedStep w < 0 \<or> 7 < expectedStep w"
  shows "checkStep w s = (Panic (UnknownWriterStep (expectedStep w)), w)"
proof -
  from assms(2) have "String (expectedStep w) = Panic (UnknownWriterStep (expectedStep w))"
    by (auto simp: String_def writerStepNames_def step_defs Let_def)
  with assms(1) show ?thesis
    by (auto simp: checkStep_def stepAllowed_def Let_def step_defs)
qed

text \<open>
  C1. Every step method starts with \<open>checkStep\<close>, which returns the protocol error for a
  call out of position while the cursor is one of the eight steps (lemma
  \<open>checkStep_refused\<close>). A successful \<open>WriteMeta\<close> leaves the cursor past the last step:
  there a further call does not return an error, it panics in \<open>writerStep.String\<close>. The
  run below is a complete legal sequence on the sample image, followed by a second
  \<open>WriteMeta\<close> and by a \<open>Start\<close>.
\<close>

theorem call_after_WriteMeta_panics:
  "fst (Start demoEnv run0 (Some demoDb) (Some demoFetcher)) = Ok demoFetcher \<and>
   fst (SnapsToDownload demoEnv run1) = Ok [] \<and>
   fst (Downloaded demoEnv run2) = Ok True \<and>
   fst (SeedSnaps demoEnv run3 (\<lambda>nm src dst. None)) = Ok () \<and>
   fst (WriteMeta demoEnv run4) = Ok () \<and>
   expectedStep run5 = 8 \<and>
   fst (WriteMeta demoEnv run5) = Panic (UnknownWriterStep 8) \<and>
   fst (Start demoEnv run5 (Some demoDb) (Some demoFetcher)) = Panic (UnknownWriterStep 8)"
  by (simp add: run5_def run4_def run3_def run2_def run1_def run0_def demo_defs step_defs
      Start_def checkStep_def SnapsToDownload_def modelSnapsToDownload_def modSnaps_def
      Downloaded_def checkBatch_def consideredBatch_def sliceFrom_def downloaded_def nextRound_def
      afterImplicit_def SeedSnaps_def WriteMeta_def String_def writerStepNames_def)

subsection \<open>The snaps of the model round\<close>

text \<open>
  C6. When the policy defines a system snap and no snap of the model is the same snap, the
  snaps of the model round are the system snap followed by the model's snaps in order;
  when the model has that snap, or the policy defines none, they are the model's snaps.
\<close>

theorem modSnaps_system_snap:
  "(case systemSnap E (pol w) of
      None \<Rightarrow> modSnaps E w = AllSnaps (model w)
    | Some sys \<Rightarrow>
        (if \<exists>m \<in> set (AllSnaps (model w)). SameSnap E m sys
         then modSnaps E w = AllSnaps (model w)
         else modSnaps E w = sys # AllSnaps (model w)))"
  by (auto simp: modSnaps_def list_ex_iff Let_def split: option.splits)

theorem modSnaps_system_snap_witness:
  "modSnaps (demoEnv\<lparr>systemSnap := \<lambda>p. Some coreSnap\<rparr>)
      (run0\<lparr>model := demoModel\<lparr>AllSnaps := [coreSnap\<lparr>msName := ''pc''\<rparr>]\<rparr>\<rparr>)
     = [coreSnap, coreSnap\<lparr>msName := ''pc''\<rparr>] \<and>
   modSnaps (demoEnv\<lparr>systemSnap := \<lambda>p. Some coreSnap\<rparr>)
      (run0\<lparr>model := demoModel\<lparr>AllSnaps := [coreSnap\<lparr>msName := ''pc''\<rparr>, coreSnap]\<rparr>\<rparr>)
     = [coreSnap\<lparr>msName := ''pc''\<rparr>, coreSnap]"
  using modSnaps_system_snap [of "demoEnv\<lparr>systemSnap := \<lambda>p. Some coreSnap\<rparr>"
          "run0\<lparr>model := demoModel\<lparr>AllSnaps := [coreSnap\<lparr>msName := ''pc''\<rparr>]\<rparr>\<rparr>"]
        modSnaps_system_snap [of "demoEnv\<lparr>systemSnap := \<lambda>p. Some coreSnap\<rparr>"
          "run0\<lparr>model := demoModel\<lparr>AllSnaps := [coreSnap\<lparr>msName := ''pc''\<rparr>, coreSnap]\<rparr>\<rparr>"]
  by (simp add: run0_def demo_defs)

subsection \<open>Setting the info of a seed snap\<close>

text \<open>
  C10. \<open>SetInfo\<close> sets the info of the seed snap to the given info. For a local snap nothing
  else changes, in the seed snap, in the other seed snaps or in the writer. For a snap that
  is not local, and an info that is not nil, the one further change is the path of the
  seed snap: the snaps directory of the tree joined with the base name of the info's mount
  file.
\<close>

theorem SetInfo_frame:
  "SetInfo E w sn info = (r, w') \<Longrightarrow>
     sInfo (seedStore w' sn) = info \<and>
     (\<forall>a. a \<noteq> sn \<longrightarrow> seedStore w' a = seedStore w a) \<and>
     w' = w\<lparr>seedStore := seedStore w'\<rparr> \<and>
     (local (seedStore w sn) \<longrightarrow>
        r = Ok () \<and> seedStore w' sn = (seedStore w sn)\<lparr>sInfo := info\<rparr>) \<and>
     (\<not> local (seedStore w sn) \<longrightarrow> (\<forall>i. info = Some i \<longrightarrow>
        r = Ok () \<and>
        seedStore w' sn = (seedStore w sn)\<lparr>sInfo := info,
           sPath := filepath_Join E (snapsDir E) (filepath_Base E (MountFile i))\<rparr>))"
  by (auto simp: SetInfo_def Let_def split: if_splits option.splits)

theorem SetInfo_frame_witness:
  "\<not> local (seedStore run0 0) \<and>
   fst (SetInfo demoEnv run0 0 (Some demoInfo)) = Ok () \<and>
   sInfo (seedStore (snd (SetInfo demoEnv run0 0 (Some demoInfo))) 0) = Some demoInfo \<and>
   sPath (seedStore (snd (SetInfo demoEnv run0 0 (Some demoInfo))) 0) = ''seed/snaps/foo_3.snap''"
proof -
  obtain r w' where e: "SetInfo demoEnv run0 0 (Some demoInfo) = (r, w')"
    by (cases "SetInfo demoEnv run0 0 (Some demoInfo)")
  have nl: "\<not> local (seedStore run0 0)"
    by (simp add: run0_def newWriter_def emptySeedSnap_def)
  have b: "filepath_Join demoEnv (snapsDir demoEnv) (filepath_Base demoEnv (MountFile demoInfo))
             = ''seed/snaps/foo_3.snap''"
    by (simp add: demoEnv_def demoInfo_def)
  from SetInfo_frame [OF e] nl
  have "r = Ok () \<and> seedStore w' 0 = (seedStore run0 0)\<lparr>sInfo := Some demoInfo,
          sPath := filepath_Join demoEnv (snapsDir demoEnv) (filepath_Base demoEnv (MountFile demoInfo))\<rparr>"
    by blast
  with e nl b show ?thesis by simp
qed

end
